theory Spec2Isabelle
  imports Main "HOL-Library.Word"
begin

unbundle bit_operations_syntax

section \<open>The in-kernel harvester (sys/modules/ddtrace/ddtrace.c)\<close>

subsection \<open>Failures\<close>

text \<open>
  \<open>DL_ASSERT\<close> is taken as a checking assertion: a failed assertion stops the kernel
  thread that ran it. An access outside an object (an index past an array, a copy
  through a \<open>NULL\<close> pointer) is kept apart from it.
\<close>

datatype panic = AssertFailed | Fault

subsection \<open>Records in a drained region\<close>

text \<open>
  A drained region is the bytes \<open>data\<close> behind \<open>dtbd_data\<close> and the length
  \<open>dsize\<close> written into it. DTrace lays records out back to back: a record starts
  with its \<open>dtrace_epid_t\<close>, an unsigned 32-bit value in the byte order of the amd64
  host; the id \<open>DTRACE_EPIDNONE\<close> marks four bytes of filler; the record of any other
  id has the size that \<open>dtrace_epid2size\<close> gives, here \<open>e2s\<close>. This is the layout
  that the text of \<open>ddtrace_persist_trace\<close> under \<open>#if 0\<close> walks; the compiled
  function does not look into the region.
\<close>

type_synonym byte = "8 word"
type_synonym dtrace_epid_t = "32 word"











subsection \<open>Per-CPU buffers and the DTrace state\<close>

text \<open>
  Modelled from the spec: the declarations of \<open>dtrace_buffer_t\<close>, \<open>dtrace_state_t\<close>,
  \<open>dtrace_ecb_t\<close> and \<open>dtrace_bufdesc_t\<close> (dtrace_impl.h, dtrace.h) are not among the
  sources. The fields below are the ones this module reads and writes. The error and
  drop counters of a buffer and the error total of the state are unsigned 32-bit
  integers, whose addition wraps; a descriptor takes copies of them into wider fields,
  which keeps their values. Sizes and offsets are natural numbers. A pointer is an
  address, \<open>None\<close> for \<open>NULL\<close>.
\<close>

record dtrace_buffer =
  dtb_flags :: "32 word"
  dtb_tomax :: "nat option"
  dtb_xamot :: "nat option"
  dtb_xamot_offset :: nat
  dtb_xamot_drops :: "32 word"
  dtb_xamot_errors :: "32 word"
  dtb_switched :: nat

definition DTRACEBUF_RING :: "32 word" where
  "DTRACEBUF_RING = 1"

definition DTRACEBUF_FILL :: "32 word" where
  "DTRACEBUF_FILL = 2"

definition DTRACEBUF_NOSWITCH :: "32 word" where
  "DTRACEBUF_NOSWITCH = 4"

text \<open>
  \<open>dtbd_cpu\<close> is \<open>None\<close> while nothing has been stored in it: \<open>ddtrace_buffer_switch\<close>
  fills its descriptor on the stack and never sets that field. The type \<open>'d\<close> is what
  stands for the pointer \<open>dtbd_data\<close>: an address in the kernel, the bytes themselves
  where a statement is about them.
\<close>

record 'd dtrace_bufdesc =
  dtbd_size :: nat
  dtbd_cpu :: "int option"
  dtbd_errors :: nat
  dtbd_drops :: nat
  dtbd_data :: "'d option"
  dtbd_oldest :: nat
  dtbd_timestamp :: nat

text \<open>
  Of an enabling control block the module reads its id and its probe; \<open>dte_probe\<close> is
  the \<open>dtpr_id\<close> of the probe, \<open>None\<close> for a \<open>NULL\<close> probe.
\<close>

record dtrace_ecb =
  dte_epid :: dtrace_epid_t
  dte_probe :: "nat option"

record dtrace_state =
  dts_addr :: nat
  dts_buffer :: "dtrace_buffer list"
  dts_errors :: "32 word"
  dts_epid :: dtrace_epid_t
  dts_alive :: int
  dts_bufpolicy :: int
  dts_ddtracearg :: int
  dts_epid2size :: "dtrace_epid_t \<Rightarrow> nat"
  dts_nformats :: int
  dts_formats :: "string option list option"
  dts_necbs :: int
  dts_ecbs :: "dtrace_ecb option list option"

text \<open>
  \<open>dts_addr\<close> is the address of the state, which is what the registry hashes and
  compares; \<open>dts_buffer\<close> holds one buffer for each of the \<open>mp_ncpus\<close> CPUs;
  \<open>dts_bufpolicy\<close> and \<open>dts_ddtracearg\<close> are the two entries of \<open>dts_options\<close> that
  the module reads; \<open>dts_epid2size\<close> is what \<open>dtrace_epid2size (state, epid)\<close> returns;
  \<open>dts_formats\<close> and \<open>dts_ecbs\<close> are the two arrays, \<open>None\<close> for a \<open>NULL\<close> array or
  entry.
\<close>

subsection \<open>\<open>ddtrace_persist_trace\<close>\<close>

text \<open>
  The compiled function: its assertions on the arguments, the queue obtained from
  \<open>virtio_dtrace_device_register\<close>, the entry allocated with \<open>M_NOWAIT\<close>, the copy of
  six fields of the descriptor into the entry (the entry is zeroed first), one call of
  \<open>vtdtr_tq_enqueue\<close>, and the assertion that the queue then counts an entry. The
  framing walk that follows in the source is under \<open>#if 0\<close> and is no part of it. The
  queue belongs to the virtio device, so what the function asks of it is a parameter:
  whether a queue is registered, whether the allocation succeeds, and whether
  \<open>n_entries\<close> is nonzero after the call. The result is the entry handed to
  \<open>vtdtr_tq_enqueue\<close>. The state is a record here, never \<open>NULL\<close>.
\<close>

record 'd virtio_dtrace_trace =
  trc_size :: nat
  trc_cpu :: "int option"
  trc_errors :: nat
  trc_drops :: nat
  trc_data :: "'d option"
  trc_oldest :: nat

record persist_env =
  tq_registered :: bool
  malloc_entry :: bool
  tq_counted :: bool

definition trace_of :: "'d dtrace_bufdesc \<Rightarrow> 'd virtio_dtrace_trace" where
  "trace_of desc =
     \<lparr>trc_size = dtbd_size desc, trc_cpu = dtbd_cpu desc, trc_errors = dtbd_errors desc,
      trc_drops = dtbd_drops desc, trc_data = dtbd_data desc, trc_oldest = dtbd_oldest desc\<rparr>"

definition ddtrace_persist_trace ::
  "persist_env \<Rightarrow> nat option \<Rightarrow> 'd dtrace_bufdesc \<Rightarrow> panic + 'd virtio_dtrace_trace" where
  "ddtrace_persist_trace penv hdl desc =
     (if hdl = None then Inl AssertFailed
      else if dtbd_data desc = None then Inl AssertFailed
      else if dtbd_size desc = 0 then Inl AssertFailed
      else if \<not> tq_registered penv then Inl AssertFailed
      else if \<not> malloc_entry penv then Inl AssertFailed
      else if trc_data (trace_of desc) = None then Inl AssertFailed
      else if \<not> tq_counted penv then Inl AssertFailed
      else Inr (trace_of desc))"



subsection \<open>\<open>ddtrace_buffer_switch\<close>\<close>

text \<open>
  \<open>dtrace_xcall (cpu, dtrace_buffer_switch, buf)\<close> is DTrace's swap primitive:
  \<open>c_xcall\<close> gives the buffer it leaves behind on a CPU, and \<open>c_persist\<close> is what the
  virtio queue and the allocator answer to the persist call made for a CPU. The entries
  enqueued are collected in call order.
\<close>

record cycle_env =
  c_xcall :: "nat \<Rightarrow> dtrace_buffer \<Rightarrow> dtrace_buffer"
  c_persist :: "nat \<Rightarrow> persist_env"

definition switch_desc :: "dtrace_buffer \<Rightarrow> nat dtrace_bufdesc" where
  "switch_desc buf =
     \<lparr>dtbd_size = dtb_xamot_offset buf, dtbd_cpu = None,
      dtbd_errors = unat (dtb_xamot_errors buf), dtbd_drops = unat (dtb_xamot_drops buf),
      dtbd_data = dtb_xamot buf, dtbd_oldest = 0, dtbd_timestamp = dtb_switched buf\<rparr>"

text \<open>
  One turn of the \<open>for (cpu = 0; cpu < mp_ncpus; cpu++)\<close> loop: it stops the thread,
  leaves the loop (\<open>break\<close>), or goes on to the next CPU with the buffer, the error
  total and the enqueued entries as they now are.
\<close>

datatype unit_outcome =
  UnitPanic panic
| UnitBreak
| UnitNext dtrace_buffer "32 word" "nat virtio_dtrace_trace list"

definition switch_unit ::
  "cycle_env \<Rightarrow> nat option \<Rightarrow> nat \<Rightarrow> dtrace_buffer \<Rightarrow> 32 word
     \<Rightarrow> nat virtio_dtrace_trace list \<Rightarrow> unit_outcome" where
  "switch_unit cenv hdl cpu buf errs out =
     (if dtb_flags buf AND (DTRACEBUF_RING OR DTRACEBUF_FILL) \<noteq> 0 then UnitPanic AssertFailed
      else if dtb_tomax buf = None then UnitBreak
      else if dtb_flags buf AND DTRACEBUF_NOSWITCH \<noteq> 0 then UnitPanic AssertFailed
      else if dtb_tomax (c_xcall cenv cpu buf) = dtb_tomax buf then
        (if dtb_xamot (c_xcall cenv cpu buf) = dtb_tomax buf then UnitPanic AssertFailed
         else UnitNext (c_xcall cenv cpu buf) errs out)
      else if dtb_tomax buf \<noteq> dtb_xamot (c_xcall cenv cpu buf) then UnitPanic AssertFailed
      else if dtbd_size (switch_desc (c_xcall cenv cpu buf)) \<noteq> 0 then
        (case ddtrace_persist_trace (c_persist cenv cpu) hdl
                (switch_desc (c_xcall cenv cpu buf)) of
           Inl p \<Rightarrow> UnitPanic p
         | Inr trc \<Rightarrow>
             UnitNext (c_xcall cenv cpu buf)
               (errs + dtb_xamot_errors (c_xcall cenv cpu buf)) (out @ [trc]))
      else
        UnitNext (c_xcall cenv cpu buf) (errs + dtb_xamot_errors (c_xcall cenv cpu buf)) out)"

fun switch_cpus ::
  "cycle_env \<Rightarrow> nat option \<Rightarrow> nat \<Rightarrow> dtrace_buffer list \<Rightarrow> dtrace_buffer list
     \<Rightarrow> 32 word \<Rightarrow> nat virtio_dtrace_trace list
     \<Rightarrow> panic + (dtrace_buffer list \<times> 32 word \<times> nat virtio_dtrace_trace list)" where
  "switch_cpus cenv hdl cpu seen [] errs out = Inr (seen, errs, out)"
| "switch_cpus cenv hdl cpu seen (buf # rest) errs out =
     (case switch_unit cenv hdl cpu buf errs out of
        UnitPanic p \<Rightarrow> Inl p
      | UnitBreak \<Rightarrow> Inr (seen @ buf # rest, errs, out)
      | UnitNext buf' errs' out' \<Rightarrow>
          switch_cpus cenv hdl (Suc cpu) (seen @ [buf']) rest errs' out')"

definition ddtrace_buffer_switch ::
  "cycle_env \<Rightarrow> nat option \<Rightarrow> dtrace_state
     \<Rightarrow> panic + (dtrace_state \<times> nat virtio_dtrace_trace list)" where
  "ddtrace_buffer_switch cenv hdl state =
     (if hdl = None then Inl AssertFailed
      else
        (case switch_cpus cenv hdl 0 [] (dts_buffer state) (dts_errors state) [] of
           Inl p \<Rightarrow> Inl p
         | Inr (bufs, errs, out) \<Rightarrow>
             Inr (state\<lparr>dts_buffer := bufs, dts_errors := errs\<rparr>, out)))"

text \<open>
  The units that a cycle has swapped, read off the buffers before and after it: those
  whose active region is another one than before, as the cycle left them.
\<close>

definition swapped_units :: "dtrace_buffer list \<Rightarrow> dtrace_buffer list \<Rightarrow> dtrace_buffer list" where
  "swapped_units bufs bufs' =
     map snd (filter (\<lambda>p. dtb_tomax (snd p) \<noteq> dtb_tomax (fst p)) (zip bufs bufs'))"

subsection \<open>\<open>ddtrace_persist_metadata\<close>\<close>

text \<open>
  The compiled function: every \<open>dlog_produce\<close> call with its \<open>return -1\<close> is under
  \<open>#if 0\<close>, so what is left are the two walks with their assertions, the array reads,
  the temporary buffer allocated with \<open>M_NOWAIT\<close> and written without a test, and
  \<open>return 0\<close>. The descriptions it builds are dropped, so the action list of a
  control block, which only sizes the temporary buffer, is left out. \<open>md_probe id\<close>
  says whether \<open>dtrace_probes[id - 1]\<close> is a probe, \<open>md_malloc epid\<close> whether the
  allocation made for \<open>epid\<close> succeeds. Each walk gives the failure that ends it, if
  any.
\<close>

record metadata_env =
  md_probe :: "nat \<Rightarrow> bool"
  md_malloc :: "nat \<Rightarrow> bool"

fun md_formats :: "string option list option \<Rightarrow> nat list \<Rightarrow> panic option" where
  "md_formats formats [] = None"
| "md_formats formats (fmt # rest) =
     (case formats of
        None \<Rightarrow> Some AssertFailed
      | Some a \<Rightarrow>
          if \<not> fmt - 1 < length a then Some Fault
          else if a ! (fmt - 1) = None then Some AssertFailed
          else md_formats formats rest)"

fun md_eprobes ::
  "metadata_env \<Rightarrow> int \<Rightarrow> dtrace_ecb option list option \<Rightarrow> nat list \<Rightarrow> panic option" where
  "md_eprobes menv necbs ecbs [] = None"
| "md_eprobes menv necbs ecbs (epid # rest) =
     (if \<not> necbs > 0 then Some AssertFailed
      else
        (case ecbs of
           None \<Rightarrow> Some Fault
         | Some a \<Rightarrow>
             if \<not> epid - 1 < length a then Some Fault
             else
               (case a ! (epid - 1) of
                  None \<Rightarrow> md_eprobes menv necbs ecbs rest
                | Some ecb \<Rightarrow>
                    if dte_epid ecb \<noteq> word_of_nat epid then Some AssertFailed
                    else
                      (case dte_probe ecb of
                         None \<Rightarrow> md_eprobes menv necbs ecbs rest
                       | Some pid \<Rightarrow>
                           if md_probe menv pid \<and> \<not> md_malloc menv epid then Some Fault
                           else md_eprobes menv necbs ecbs rest))))"

text \<open>
  The second walk runs \<open>epid\<close> from 1 up to \<open>dts_epid\<close> inclusive. With \<open>dts_epid\<close>
  at its largest value the counter wraps to 0 and the walk reads \<open>dts_ecbs[epid - 1]\<close>
  far outside the array.
\<close>

definition ddtrace_persist_metadata :: "metadata_env \<Rightarrow> dtrace_state \<Rightarrow> panic + int" where
  "ddtrace_persist_metadata menv state =
     (case md_formats (dts_formats state) [1 ..< Suc (nat (dts_nformats state))] of
        Some p \<Rightarrow> Inl p
      | None \<Rightarrow>
          if \<not> (dts_necbs state > 0 \<and> dts_ecbs state \<noteq> None) then Inl AssertFailed
          else
            (case md_eprobes menv (dts_necbs state) (dts_ecbs state)
                    [1 ..< Suc (unat (dts_epid state))] of
               Some p \<Rightarrow> Inl p
             | None \<Rightarrow> if dts_epid state = - 1 then Inl Fault else Inr 0))"

subsection \<open>\<open>ddtrace_thread\<close>\<close>

record client =
  ddtrace_pid :: "nat option"
  ddtrace_dlog_handle :: "nat option"
  ddtrace_state :: "nat option"
  ddtrace_exit :: int

definition ddtrace_assert_integrity :: "client \<Rightarrow> bool" where
  "ddtrace_assert_integrity self =
     (ddtrace_dlog_handle self \<noteq> None \<and> ddtrace_state self \<noteq> None \<and> ddtrace_pid self \<noteq> None)"

text \<open>
  What the worker does is a log: the liveness stamp written to \<open>dts_alive\<close>, a call of
  \<open>ddtrace_buffer_switch\<close> with the entries it enqueued, the wake at which
  \<open>ddtrace_exit\<close> was read set, and \<open>kthread_exit\<close>. The worker's surroundings are
  parameters: \<open>ex i\<close> says whether \<open>ddtrace_exit\<close> reads set at wake \<open>i\<close>,
  \<open>cenv i\<close> is what the swap primitive and the queue do during cycle \<open>i\<close> (the swap
  carries what the probes wrote since the last one), \<open>clk i\<close> is
  \<open>dtrace_gethrtime ()\<close> in cycle \<open>i\<close>, and \<open>menv\<close> is what the metadata export
  meets. The loop has no bound of its own: \<open>None\<close> is a worker that never leaves it.
\<close>

datatype event =
  Heartbeat int
| Cycle "nat virtio_dtrace_trace list"
| ExitObserved
| KthreadExit

partial_function (option) thread_loop ::
  "(nat \<Rightarrow> bool) \<Rightarrow> (nat \<Rightarrow> cycle_env) \<Rightarrow> nat option \<Rightarrow> (nat \<Rightarrow> int) \<Rightarrow> nat
     \<Rightarrow> dtrace_state \<Rightarrow> event list \<Rightarrow> (panic + (nat \<times> dtrace_state \<times> event list)) option" where
  "thread_loop ex cenv hdl clk i state log =
     (if ex i then Some (Inr (i, state, log @ [ExitObserved]))
      else
        (case ddtrace_buffer_switch (cenv i) hdl (state\<lparr>dts_alive := clk i\<rparr>) of
           Inl p \<Rightarrow> Some (Inl p)
         | Inr r \<Rightarrow>
             thread_loop ex cenv hdl clk (Suc i) (fst r)
               (log @ [Heartbeat (clk i), Cycle (snd r)])))"

declare thread_loop.simps [code]

definition ddtrace_thread ::
  "client \<Rightarrow> metadata_env \<Rightarrow> (nat \<Rightarrow> bool) \<Rightarrow> (nat \<Rightarrow> cycle_env) \<Rightarrow> (nat \<Rightarrow> int)
     \<Rightarrow> dtrace_state \<Rightarrow> (panic + (dtrace_state \<times> event list)) option" where
  "ddtrace_thread k menv ex cenv clk state =
     (if \<not> ddtrace_assert_integrity k then Some (Inl AssertFailed)
      else
        (case ddtrace_persist_metadata menv state of
           Inl p \<Rightarrow> Some (Inl p)
         | Inr rc \<Rightarrow>
             if rc \<noteq> 0 then Some (Inr (state, []))
             else
               (case thread_loop ex cenv (ddtrace_dlog_handle k) clk 0 state [] of
                  None \<Rightarrow> None
                | Some (Inl p) \<Rightarrow> Some (Inl p)
                | Some (Inr (i, state1, log1)) \<Rightarrow>
                    (case ddtrace_buffer_switch (cenv i) (ddtrace_dlog_handle k) state1 of
                       Inl p \<Rightarrow> Some (Inl p)
                     | Inr (state2, trcs) \<Rightarrow>
                         Some (Inr (state2, log1 @ [Cycle trcs, KthreadExit]))))))"

text \<open>
  The cycles that the worker runs before it sees the exit flag, as a recursion on their
  number: \<open>n\<close> cycles from wake \<open>i\<close> on, each a stamp and a switch on the state that
  the cycle before left.
\<close>

fun run_cycles ::
  "(nat \<Rightarrow> cycle_env) \<Rightarrow> nat option \<Rightarrow> (nat \<Rightarrow> int) \<Rightarrow> nat \<Rightarrow> nat \<Rightarrow> dtrace_state
     \<Rightarrow> panic + (dtrace_state \<times> event list)" where
  "run_cycles cenv hdl clk i 0 state = Inr (state, [])"
| "run_cycles cenv hdl clk i (Suc n) state =
     (case ddtrace_buffer_switch (cenv i) hdl (state\<lparr>dts_alive := clk i\<rparr>) of
        Inl p \<Rightarrow> Inl p
      | Inr (state1, trcs) \<Rightarrow>
          (case run_cycles cenv hdl clk (Suc i) n state1 of
             Inl p \<Rightarrow> Inl p
           | Inr (state2, log) \<Rightarrow> Inr (state2, [Heartbeat (clk i), Cycle trcs] @ log)))"

definition is_cycle :: "event \<Rightarrow> bool" where
  "is_cycle e = (case e of Cycle trcs \<Rightarrow> True | _ \<Rightarrow> False)"

subsection \<open>The registry and \<open>ddtrace_open\<close>\<close>

text \<open>
  The module's mutable state is the client hash table, one chain per bucket, the
  kernel threads that \<open>kproc_kthread_add\<close> has started, each with the client it was
  given, and the clients that were told to stop (\<open>ddtrace_exit\<close> set and the
  condition variable broadcast), as they were freed. \<open>hashinit\<close> with \<open>DDTRACE_NHASH_BUCKETS = 16\<close> leaves the mask 15. The hash
  \<open>murmur3_32_hash\<close> is the kernel's: it is the parameter \<open>hsh\<close>, applied to the
  address of the state.
\<close>

record module_state =
  ddtrace_hashtbl :: "nat \<Rightarrow> client list"
  kthreads :: "client list"
  signalled :: "client list"

definition ddtrace_hashmask :: "32 word" where
  "ddtrace_hashmask = 15"

definition bucket_of :: "(nat \<Rightarrow> 32 word) \<Rightarrow> nat \<Rightarrow> nat" where
  "bucket_of hsh addr = unat (hsh addr AND ddtrace_hashmask)"

text \<open>
  What \<open>ddtrace_open\<close> asks of the kernel: the descriptor table of \<open>curproc\<close> with the
  device data behind a file, whether \<open>malloc\<close> with \<open>M_NOWAIT\<close> yields a client, and
  the return code of \<open>kproc_kthread_add\<close> with the process it stores in
  \<open>ddtrace_pid\<close>. \<open>DL_MTU\<close> is declared by the log's headers and is the parameter
  \<open>dl_mtu\<close>; the two option values are those of dtrace.h.
\<close>

record cdev_privdata =
  cdpd_data :: "nat option"

record kfile =
  f_cdevpriv :: "cdev_privdata option"

record open_env =
  fget_locked :: "int \<Rightarrow> kfile option"
  malloc_client :: bool
  kproc_rc :: int
  kproc_pid :: "nat option"

definition DTRACEOPT_BUFPOLICY_SWITCH :: int where
  "DTRACEOPT_BUFPOLICY_SWITCH = 2"

definition DTRACEOPT_UNSET :: int where
  "DTRACEOPT_UNSET = - 2"

text \<open>
  The loop \<open>for (epid = 1; epid < state->dts_epid; epid++)\<close> with its early return:
  the first id whose record size is above \<open>DL_MTU\<close>, if there is one.
\<close>

definition open_epids :: "dtrace_state \<Rightarrow> dtrace_epid_t list" where
  "open_epids state = map word_of_nat [1 ..< unat (dts_epid state)]"

definition open_mtu_violation :: "nat \<Rightarrow> dtrace_state \<Rightarrow> dtrace_epid_t option" where
  "open_mtu_violation dl_mtu state =
     find (\<lambda>epid. dts_epid2size state epid > dl_mtu) (open_epids state)"

text \<open>
  The checks of \<open>ddtrace_open\<close> up to the allocation of the client: \<open>None\<close> is a
  \<open>return\<close> before anything is created, \<open>Some handle\<close> the log handle found behind
  the descriptor.
\<close>

definition open_checks :: "nat \<Rightarrow> open_env \<Rightarrow> dtrace_state \<Rightarrow> nat option" where
  "open_checks dl_mtu env state =
     (if open_mtu_violation dl_mtu state \<noteq> None then None
      else if dts_bufpolicy state \<noteq> DTRACEOPT_BUFPOLICY_SWITCH then None
      else if dts_ddtracearg state = DTRACEOPT_UNSET then None
      else
        (case fget_locked env (dts_ddtracearg state) of
           None \<Rightarrow> None
         | Some fp \<Rightarrow>
             (case f_cdevpriv fp of
                None \<Rightarrow> None
              | Some p \<Rightarrow> cdpd_data p)))"

definition new_client :: "open_env \<Rightarrow> dtrace_state \<Rightarrow> nat \<Rightarrow> client" where
  "new_client env state handle =
     \<lparr>ddtrace_pid = kproc_pid env, ddtrace_dlog_handle = Some handle,
      ddtrace_state = Some (dts_addr state), ddtrace_exit = 0\<rparr>"

definition ddtrace_open ::
  "(nat \<Rightarrow> 32 word) \<Rightarrow> nat \<Rightarrow> open_env \<Rightarrow> module_state \<Rightarrow> dtrace_state
     \<Rightarrow> panic + module_state" where
  "ddtrace_open hsh dl_mtu env m state =
     (case open_checks dl_mtu env state of
        None \<Rightarrow> Inr m
      | Some handle \<Rightarrow>
          if \<not> malloc_client env then Inl AssertFailed
          else if kproc_rc env \<noteq> 0 then Inl AssertFailed
          else if \<not> ddtrace_assert_integrity (new_client env state handle) then Inl AssertFailed
          else
            Inr (m\<lparr>ddtrace_hashtbl :=
                     (ddtrace_hashtbl m)
                       (bucket_of hsh (dts_addr state) :=
                          new_client env state handle
                            # ddtrace_hashtbl m (bucket_of hsh (dts_addr state))),
                   kthreads := new_client env state handle # kthreads m\<rparr>))"

text \<open>The sessions that the registry holds for a state.\<close>

definition sessions_of :: "(nat \<Rightarrow> 32 word) \<Rightarrow> module_state \<Rightarrow> nat \<Rightarrow> client list" where
  "sessions_of hsh m addr =
     filter (\<lambda>k. ddtrace_state k = Some addr) (ddtrace_hashtbl m (bucket_of hsh addr))"

subsection \<open>\<open>ddtrace_close\<close> and \<open>ddtrace_stop\<close>\<close>







section \<open>The user-space consumer (contrib/ddtrace/ddtrace_consumer.c)\<close>

subsection \<open>\<open>dtc_get_buf\<close>\<close>

text \<open>
  A C string is its characters, with the terminating NUL read at its end. \<open>strncmp\<close>
  compares at most \<open>n\<close> characters as unsigned bytes and stops after a NUL.
\<close>

definition cstr_at :: "string \<Rightarrow> char" where
  "cstr_at s = (case s of [] \<Rightarrow> CHR 0x00 | c # _ \<Rightarrow> c)"

fun strncmp :: "string \<Rightarrow> string \<Rightarrow> nat \<Rightarrow> int" where
  "strncmp s1 s2 0 = 0"
| "strncmp s1 s2 (Suc n) =
     (if cstr_at s1 \<noteq> cstr_at s2 then of_char (cstr_at s1) - of_char (cstr_at s2)
      else if cstr_at s1 = CHR 0x00 then 0
      else strncmp (tl s1) (tl s2) n)"

text \<open>
  A message as \<open>rd_kafka_consume\<close> returns it: \<open>rkm_err\<close>, the payload with
  \<open>len\<close> its length, and the key (\<open>None\<close> for \<open>NULL\<close>) with \<open>key_len\<close> its
  length. The two \<open>dt_zalloc\<close> calls succeed or not as \<open>alloc_buf\<close> and
  \<open>alloc_data\<close> say. The result is the return code with what \<open>*bufp\<close> holds.
\<close>

record rd_kafka_message =
  rkm_err :: int
  rkm_payload :: "byte list"
  rkm_key :: "string option"

definition key_accepted :: "rd_kafka_message \<Rightarrow> bool" where
  "key_accepted rkmessage =
     (case rkm_key rkmessage of
        None \<Rightarrow> False
      | Some key \<Rightarrow> strncmp key ''ddtrace'' (length key) = 0)"

definition zalloc_bufdesc :: "(byte list) dtrace_bufdesc" where
  "zalloc_bufdesc =
     \<lparr>dtbd_size = 0, dtbd_cpu = Some 0, dtbd_errors = 0, dtbd_drops = 0,
      dtbd_data = None, dtbd_oldest = 0, dtbd_timestamp = 0\<rparr>"

definition dtc_get_buf ::
  "bool \<Rightarrow> bool \<Rightarrow> rd_kafka_message option \<Rightarrow> int \<Rightarrow> int \<times> (byte list) dtrace_bufdesc option" where
  "dtc_get_buf alloc_buf alloc_data consumed cpu =
     (if \<not> alloc_buf then (- 1, None)
      else
        (case consumed of
           None \<Rightarrow> (0, Some zalloc_bufdesc)
         | Some rkmessage \<Rightarrow>
             if rkm_err rkmessage = 0 \<and> length (rkm_payload rkmessage) > 0 then
               (if key_accepted rkmessage then
                  (if \<not> alloc_data then (- 1, None)
                   else
                     (0, Some (zalloc_bufdesc
                        \<lparr>dtbd_data := Some (rkm_payload rkmessage),
                         dtbd_size := length (rkm_payload rkmessage),
                         dtbd_cpu := Some cpu\<rparr>)))
                else (0, Some (zalloc_bufdesc\<lparr>dtbd_size := 0\<rparr>)))
             else (0, Some (zalloc_bufdesc\<lparr>dtbd_size := 0\<rparr>))))"

subsection \<open>\<open>dtc_buffered_handler\<close>\<close>

text \<open>
  The broker is what \<open>rd_kafka_produce\<close> answers on each attempt: \<open>br n\<close> for the
  attempt numbered \<open>n\<close>. \<open>Accepted\<close> is the return value 0; the other two are the
  return value -1, with \<open>rd_kafka_last_error ()\<close> equal to
  \<open>RD_KAFKA_RESP_ERR__QUEUE_FULL\<close> or not. The calls made on the broker are logged in
  order, \<open>Poll\<close> with the timeout in milliseconds it was given. The retry has no
  bound: \<open>None\<close> is a handler that never returns.
\<close>

datatype produce_answer = Accepted | QueueFull | Failed

datatype kafka_call = Produce string | Poll int

datatype publish_outcome = Enqueued | Dropped

partial_function (option) produce_retry ::
  "(nat \<Rightarrow> produce_answer) \<Rightarrow> string \<Rightarrow> nat \<Rightarrow> kafka_call list
     \<Rightarrow> (publish_outcome \<times> nat \<times> kafka_call list) option" where
  "produce_retry br payload n calls =
     (case br n of
        Accepted \<Rightarrow> Some (Enqueued, Suc n, calls @ [Produce payload])
      | Failed \<Rightarrow> Some (Dropped, Suc n, calls @ [Produce payload])
      | QueueFull \<Rightarrow> produce_retry br payload (Suc n) (calls @ [Produce payload, Poll 1000]))"

declare produce_retry.simps [code]

text \<open>
  The handler keeps the message under construction in the static \<open>output_buf\<close>
  (\<open>None\<close> for \<open>NULL\<close>). Appending to an absent buffer fails the integrity assertion
  of the buffer library. The result holds the return value, \<open>output_buf\<close> as the call
  leaves it, the outcome of the publish if there was one, the number of the next
  attempt and the calls made on the broker.
\<close>

record handled =
  h_rc :: int
  h_output_buf :: "string option"
  h_outcome :: "publish_outcome option"
  h_attempt :: nat
  h_calls :: "kafka_call list"

definition dtc_buffered_handler ::
  "(nat \<Rightarrow> produce_answer) \<Rightarrow> nat \<Rightarrow> string option \<Rightarrow> string \<Rightarrow> (panic + handled) option" where
  "dtc_buffered_handler br n output_buf dtbda_buffered =
     (if cstr_at dtbda_buffered = CHR ''{'' \<and> output_buf \<noteq> None then Some (Inl AssertFailed)
      else
        (case (if cstr_at dtbda_buffered = CHR ''{'' then Some [] else output_buf) of
           None \<Rightarrow> Some (Inl AssertFailed)
         | Some b \<Rightarrow>
             if cstr_at dtbda_buffered = CHR ''}'' then
               (case produce_retry br (b @ dtbda_buffered) n [] of
                  None \<Rightarrow> None
                | Some (outcome, n', calls) \<Rightarrow>
                    Some (Inr \<lparr>h_rc = 0, h_output_buf = None, h_outcome = Some outcome,
                               h_attempt = n', h_calls = calls\<rparr>))
             else
               Some (Inr \<lparr>h_rc = 0, h_output_buf = Some (b @ dtbda_buffered),
                          h_outcome = None, h_attempt = n, h_calls = []\<rparr>)))"

section \<open>Concrete inputs\<close>



definition sizes_ab :: "dtrace_epid_t \<Rightarrow> nat" where
  "sizes_ab epid = (if epid = 1 then 8 else if epid = 2 then 16 else 0)"

text \<open>A queue that is registered, an allocation that succeeds, an enqueue that counts.\<close>

definition penv_ok :: persist_env where
  "penv_ok = \<lparr>tq_registered = True, malloc_entry = True, tq_counted = True\<rparr>"


text \<open>A swap that succeeds and finds 64 bytes, 5 drops and 3 errors in the drained region.\<close>

definition swap_xcall :: "nat \<Rightarrow> dtrace_buffer \<Rightarrow> dtrace_buffer" where
  "swap_xcall cpu buf =
     buf\<lparr>dtb_tomax := dtb_xamot buf, dtb_xamot := dtb_tomax buf, dtb_xamot_offset := 64,
         dtb_xamot_drops := 5, dtb_xamot_errors := 3, dtb_switched := 1000\<rparr>"

text \<open>A swap that succeeds and finds the drained region empty.\<close>

definition idle_xcall :: "nat \<Rightarrow> dtrace_buffer \<Rightarrow> dtrace_buffer" where
  "idle_xcall cpu buf =
     buf\<lparr>dtb_tomax := dtb_xamot buf, dtb_xamot := dtb_tomax buf, dtb_xamot_offset := 0,
         dtb_xamot_drops := 0, dtb_xamot_errors := 0, dtb_switched := 1000\<rparr>"

definition cenv_swap :: cycle_env where
  "cenv_swap = \<lparr>c_xcall = swap_xcall, c_persist = (\<lambda>cpu. penv_ok)\<rparr>"

definition cenv_idle :: cycle_env where
  "cenv_idle = \<lparr>c_xcall = idle_xcall, c_persist = (\<lambda>cpu. penv_ok)\<rparr>"

text \<open>The first cycle finds data, the later ones find the regions empty.\<close>

definition cenv_first :: "nat \<Rightarrow> cycle_env" where
  "cenv_first i = (if i = 0 then cenv_swap else cenv_idle)"

definition buf_unwritten :: dtrace_buffer where
  "buf_unwritten =
     \<lparr>dtb_flags = 0, dtb_tomax = None, dtb_xamot = None, dtb_xamot_offset = 0,
      dtb_xamot_drops = 0, dtb_xamot_errors = 0, dtb_switched = 0\<rparr>"

definition buf_live :: dtrace_buffer where
  "buf_live =
     \<lparr>dtb_flags = 0, dtb_tomax = Some 4096, dtb_xamot = Some 8192, dtb_xamot_offset = 0,
      dtb_xamot_drops = 0, dtb_xamot_errors = 0, dtb_switched = 0\<rparr>"

text \<open>
  A state with two enabled clauses, of record sizes 8 and 16, no format strings, and
  room for four control blocks.
\<close>

definition state_of :: "dtrace_buffer list \<Rightarrow> dtrace_state" where
  "state_of bufs =
     \<lparr>dts_addr = 7, dts_buffer = bufs, dts_errors = 10, dts_epid = 3, dts_alive = 0,
      dts_bufpolicy = 2, dts_ddtracearg = 5, dts_epid2size = sizes_ab,
      dts_nformats = 0, dts_formats = None, dts_necbs = 4,
      dts_ecbs = Some [Some \<lparr>dte_epid = 1, dte_probe = Some 11\<rparr>,
                       Some \<lparr>dte_epid = 2, dte_probe = Some 12\<rparr>, None, None]\<rparr>"

definition menv_ok :: metadata_env where
  "menv_ok = \<lparr>md_probe = (\<lambda>pid. True), md_malloc = (\<lambda>epid. True)\<rparr>"

definition env_ok :: open_env where
  "env_ok =
     \<lparr>fget_locked = (\<lambda>fd. if fd = 5 then Some \<lparr>f_cdevpriv = Some \<lparr>cdpd_data = Some 77\<rparr>\<rparr> else None),
      malloc_client = True, kproc_rc = 0, kproc_pid = Some 900\<rparr>"

definition hash_low :: "nat \<Rightarrow> 32 word" where
  "hash_low addr = word_of_nat addr"

definition client_7 :: client where
  "client_7 =
     \<lparr>ddtrace_pid = Some 900, ddtrace_dlog_handle = Some 77, ddtrace_state = Some 7,
      ddtrace_exit = 0\<rparr>"

definition registry_empty :: module_state where
  "registry_empty = \<lparr>ddtrace_hashtbl = (\<lambda>b. []), kthreads = [], signalled = []\<rparr>"

definition registry_7 :: module_state where
  "registry_7 =
     \<lparr>ddtrace_hashtbl = (\<lambda>b. if b = 7 then [client_7] else []), kthreads = [client_7],
      signalled = []\<rparr>"

definition full_twice :: "nat \<Rightarrow> produce_answer" where
  "full_twice n = (if n < 2 then QueueFull else Accepted)"

definition exit_at_2 :: "nat \<Rightarrow> bool" where
  "exit_at_2 i = (2 \<le> i)"

section \<open>Evaluation facts\<close>


lemmas open_eval =
  ddtrace_open_def open_checks_def open_mtu_violation_def open_epids_def
  state_of_def env_ok_def sizes_ab_def DTRACEOPT_BUFPOLICY_SWITCH_def DTRACEOPT_UNSET_def
  new_client_def ddtrace_assert_integrity_def bucket_of_def hash_low_def ddtrace_hashmask_def
  sessions_of_def registry_empty_def registry_7_def client_7_def find_None_iff

lemmas switch_eval =
  ddtrace_buffer_switch_def switch_unit_def switch_desc_def swap_xcall_def
  idle_xcall_def buf_unwritten_def buf_live_def state_of_def cenv_swap_def cenv_idle_def
  ddtrace_persist_trace_def trace_of_def penv_ok_def swapped_units_def
  DTRACEBUF_RING_def DTRACEBUF_FILL_def DTRACEBUF_NOSWITCH_def

section \<open>The persist step\<close>



lemma persist_trace_result:
  "ddtrace_persist_trace penv hdl desc = Inr trc \<Longrightarrow>
   trc = trace_of desc \<and> dtbd_size desc \<noteq> 0 \<and> dtbd_data desc \<noteq> None \<and> hdl \<noteq> None"
  by (auto simp: ddtrace_persist_trace_def split: if_splits)






section \<open>Session open\<close>

lemma open_epids_mem:
  "1 \<le> unat epid \<Longrightarrow> unat epid < unat (dts_epid state) \<Longrightarrow> epid \<in> set (open_epids state)"
proof -
  assume a: "1 \<le> unat epid" "unat epid < unat (dts_epid state)"
  have "word_of_nat (unat epid) = epid" by simp
  moreover from a have "unat epid \<in> set [1 ..< unat (dts_epid state)]" by simp
  ultimately show ?thesis unfolding open_epids_def by (metis image_eqI set_map)
qed

lemma open_rejects_mtu_violation:
  "open_mtu_violation dl_mtu state \<noteq> None \<Longrightarrow> ddtrace_open hsh dl_mtu env m state = Inr m"
  by (auto simp: ddtrace_open_def open_checks_def)

lemma open_started_sizes:
  "ddtrace_open hsh dl_mtu env m state = Inr m' \<Longrightarrow> kthreads m' \<noteq> kthreads m \<Longrightarrow>
   open_mtu_violation dl_mtu state = None"
  by (auto simp: ddtrace_open_def open_checks_def split: option.splits if_splits)

text \<open>
  Claim C4: the open compares the record size of every enabled id, the ids from 1 up
  to \<open>dts_epid\<close> exclusive, with \<open>DL_MTU\<close>. If one of them is above it, the open
  returns with the module as it was: no session is registered and no worker started.
  If the open has started a worker, every enabled id is within \<open>DL_MTU\<close>, and this
  holds before the worker's first cycle. The harvest itself has no test on record
  sizes in this revision: \<open>ddtrace_buffer_switch\<close> and \<open>ddtrace_persist_trace\<close>
  do not read them.
\<close>

theorem open_rejects_record_above_mtu:
  "(1 \<le> unat epid \<and> unat epid < unat (dts_epid state) \<and> dl_mtu < dts_epid2size state epid
      \<longrightarrow> ddtrace_open hsh dl_mtu env m state = Inr m) \<and>
   (ddtrace_open hsh dl_mtu env m state = Inr m' \<and> kthreads m' \<noteq> kthreads m
      \<longrightarrow> (\<forall>e. 1 \<le> unat e \<and> unat e < unat (dts_epid state)
                \<longrightarrow> dts_epid2size state e \<le> dl_mtu))"
proof (intro conjI impI allI)
  assume a: "1 \<le> unat epid \<and> unat epid < unat (dts_epid state) \<and>
             dl_mtu < dts_epid2size state epid"
  then have "epid \<in> set (open_epids state)" by (simp add: open_epids_mem)
  with a have "open_mtu_violation dl_mtu state \<noteq> None"
    by (auto simp: open_mtu_violation_def find_None_iff)
  then show "ddtrace_open hsh dl_mtu env m state = Inr m" by (rule open_rejects_mtu_violation)
next
  fix e :: dtrace_epid_t
  assume a: "ddtrace_open hsh dl_mtu env m state = Inr m' \<and> kthreads m' \<noteq> kthreads m"
    and b: "1 \<le> unat e \<and> unat e < unat (dts_epid state)"
  from a have "open_mtu_violation dl_mtu state = None" by (auto dest: open_started_sizes)
  moreover from b have "e \<in> set (open_epids state)" by (simp add: open_epids_mem)
  ultimately show "dts_epid2size state e \<le> dl_mtu"
    by (auto simp: open_mtu_violation_def find_None_iff not_less)
qed

theorem open_rejects_record_above_mtu_witness:
  "dts_epid2size (state_of []) 2 = 16 \<and> unat (dts_epid (state_of [])) = 3 \<and>
   ddtrace_open hash_low 8 env_ok registry_empty (state_of []) = Inr registry_empty \<and>
   (\<exists>m'. ddtrace_open hash_low 32 env_ok registry_empty (state_of []) = Inr m' \<and>
      kthreads m' = [client_7] \<and> dts_epid2size (state_of []) 1 \<le> 32 \<and>
      dts_epid2size (state_of []) 2 \<le> 32)"
proof -
  have a: "1 \<le> unat (2 :: dtrace_epid_t) \<and> unat (2 :: dtrace_epid_t) < unat (dts_epid (state_of [])) \<and>
           8 < dts_epid2size (state_of []) 2"
    by (simp add: state_of_def sizes_ab_def)
  from open_rejects_record_above_mtu
    [where epid = 2 and state = "state_of []" and dl_mtu = 8 and hsh = hash_low
       and env = env_ok and m = registry_empty] a
  have r: "ddtrace_open hash_low 8 env_ok registry_empty (state_of []) = Inr registry_empty"
    by blast
  obtain m' where m': "ddtrace_open hash_low 32 env_ok registry_empty (state_of []) = Inr m'"
    "kthreads m' = [client_7]"
    by (simp add: open_eval)
  then have s: "ddtrace_open hash_low 32 env_ok registry_empty (state_of []) = Inr m' \<and>
                kthreads m' \<noteq> kthreads registry_empty"
    by (simp add: registry_empty_def)
  have u: "1 \<le> unat (1 :: dtrace_epid_t) \<and> unat (1 :: dtrace_epid_t) < unat (dts_epid (state_of []))"
    "1 \<le> unat (2 :: dtrace_epid_t) \<and> unat (2 :: dtrace_epid_t) < unat (dts_epid (state_of []))"
    by (simp_all add: state_of_def)
  from open_rejects_record_above_mtu
    [where state = "state_of []" and dl_mtu = 32 and hsh = hash_low
       and env = env_ok and m = registry_empty and m' = m'] s u
  have t: "dts_epid2size (state_of []) 1 \<le> 32 \<and> dts_epid2size (state_of []) 2 \<le> 32"
    by blast
  have v: "dts_epid2size (state_of []) 2 = 16 \<and> unat (dts_epid (state_of [])) = 3"
    by (simp add: state_of_def sizes_ab_def)
  from r m' t v show ?thesis by blast
qed

text \<open>
  Claim C3 says that a second open on a registered state fails and creates no session.
  On a registry that holds a session for the state at address 7, a second open on that
  state does not fail, and the registry then holds two sessions for it.
\<close>

theorem second_open_adds_session:
  "sessions_of hash_low registry_7 7 = [client_7] \<and>
   (case ddtrace_open hash_low 32 env_ok registry_7 (state_of []) of
      Inl p \<Rightarrow> False
    | Inr m \<Rightarrow> sessions_of hash_low m 7 = [client_7, client_7] \<and>
               kthreads m = [client_7, client_7])"
  by (simp add: open_eval)

text \<open>
  Claim C3, amended: \<open>ddtrace_open\<close> never looks the state up in the registry. On a
  registry that already holds a session for the state, an open that passes the
  resource checks (and gets its memory and its thread) creates a further session for
  the same state at the head of the bucket's chain and starts a worker for it; the
  sessions already there, the first one among them, stay in the chain as they were.
\<close>

theorem open_on_registered_handle:
  assumes "k0 \<in> set (sessions_of hsh m (dts_addr state))"
    and "open_checks dl_mtu env state = Some handle"
    and "malloc_client env" and "kproc_rc env = 0" and "kproc_pid env \<noteq> None"
  shows "\<exists>m'. ddtrace_open hsh dl_mtu env m state = Inr m' \<and>
           ddtrace_hashtbl m' (bucket_of hsh (dts_addr state)) =
             new_client env state handle # ddtrace_hashtbl m (bucket_of hsh (dts_addr state)) \<and>
           sessions_of hsh m' (dts_addr state) =
             new_client env state handle # sessions_of hsh m (dts_addr state) \<and>
           k0 \<in> set (sessions_of hsh m' (dts_addr state)) \<and>
           kthreads m' = new_client env state handle # kthreads m"
  using assms
  by (simp add: ddtrace_open_def ddtrace_assert_integrity_def new_client_def sessions_of_def)

theorem open_on_registered_handle_witness:
  "client_7 \<in> set (sessions_of hash_low registry_7 (dts_addr (state_of []))) \<and>
   open_checks 32 env_ok (state_of []) = Some 77 \<and>
   malloc_client env_ok \<and> kproc_rc env_ok = 0 \<and> kproc_pid env_ok \<noteq> None \<and>
   (\<exists>m'. ddtrace_open hash_low 32 env_ok registry_7 (state_of []) = Inr m' \<and>
      sessions_of hash_low m' 7 = [client_7, client_7])"
proof -
  have a: "client_7 \<in> set (sessions_of hash_low registry_7 (dts_addr (state_of [])))"
    by (simp add: open_eval)
  have b: "open_checks 32 env_ok (state_of []) = Some 77" by (simp add: open_eval)
  have c: "malloc_client env_ok" "kproc_rc env_ok = 0" "kproc_pid env_ok \<noteq> None"
    by (simp_all add: env_ok_def)
  have d: "new_client env_ok (state_of []) 77 = client_7" by (simp add: open_eval)
  have e: "sessions_of hash_low registry_7 7 = [client_7]" by (simp add: open_eval)
  have f: "dts_addr (state_of []) = 7" by (simp add: state_of_def)
  from open_on_registered_handle [OF a b c] a b c d e f
  show ?thesis by auto
qed

section \<open>The harvest cycle\<close>

text \<open>
  Claim C6: a unit whose active region was never written is skipped, and the remaining
  units are still processed in the same cycle.

  The code leaves the loop (\<open>break\<close>) at such a unit. With an unwritten unit 0 and a
  live unit 1, the cycle returns the state as it was and enqueues nothing, although
  unit 1 on its own swaps and yields an entry.
\<close>

theorem unwritten_unit_ends_cycle:
  "ddtrace_buffer_switch cenv_swap (Some 77) (state_of [buf_unwritten, buf_live]) =
     Inr (state_of [buf_unwritten, buf_live], []) \<and>
   switch_unit cenv_swap (Some 77) 1 buf_live 10 [] =
     UnitNext (swap_xcall 1 buf_live) 13 [trace_of (switch_desc (swap_xcall 1 buf_live))]"
  by (simp add: switch_eval)

subsection \<open>The error total\<close>







section \<open>The worker\<close>

lemma metadata_eval:
  "ddtrace_persist_metadata menv_ok (state_of bufs) = Inr 0"
  by (simp add: ddtrace_persist_metadata_def state_of_def menv_ok_def upt_rec)


lemma thread_loop_exit:
  "\<forall>j<n. \<not> ex (i + j) \<Longrightarrow> ex (i + n) \<Longrightarrow>
   thread_loop ex cenv hdl clk i state log =
     Some (case run_cycles cenv hdl clk i n state of
             Inl p \<Rightarrow> Inl p
           | Inr (state1, log1) \<Rightarrow> Inr (i + n, state1, log @ log1 @ [ExitObserved]))"
proof (induction n arbitrary: i state log)
  case 0
  then show ?case by (subst thread_loop.simps) simp
next
  case (Suc n)
  from Suc.prems(1) have h0: "\<not> ex i"
    by (metis add.right_neutral zero_less_Suc)
  have h1: "\<forall>j<n. \<not> ex (Suc i + j)"
  proof (intro allI impI)
    fix j assume "j < n"
    then have "Suc j < Suc n" by simp
    with Suc.prems(1) have "\<not> ex (i + Suc j)" by blast
    then show "\<not> ex (Suc i + j)" by simp
  qed
  from Suc.prems(2) have h2: "ex (Suc i + n)" by simp
  show ?case
  proof (cases "ddtrace_buffer_switch (cenv i) hdl (state\<lparr>dts_alive := clk i\<rparr>)")
    case (Inl p)
    with h0 show ?thesis by (subst thread_loop.simps) simp
  next
    case (Inr r)
    obtain state1 trcs where r: "r = (state1, trcs)" by (cases r) auto
    have "thread_loop ex cenv hdl clk i state log =
            thread_loop ex cenv hdl clk (Suc i) state1 (log @ [Heartbeat (clk i), Cycle trcs])"
      using h0 Inr r by (subst thread_loop.simps) simp
    also have "\<dots> =
       Some (case run_cycles cenv hdl clk (Suc i) n state1 of
               Inl p \<Rightarrow> Inl p
             | Inr (state2, log1) \<Rightarrow>
                 Inr (Suc i + n, state2,
                      (log @ [Heartbeat (clk i), Cycle trcs]) @ log1 @ [ExitObserved]))"
      by (rule Suc.IH [OF h1 h2])
    also have "\<dots> =
       Some (case run_cycles cenv hdl clk i (Suc n) state of
               Inl p \<Rightarrow> Inl p
             | Inr (state1, log1) \<Rightarrow> Inr (i + Suc n, state1, log @ log1 @ [ExitObserved]))"
      using Inr r by (simp split: sum.splits)
    finally show ?thesis .
  qed
qed

lemma run_cycles_log:
  "run_cycles cenv hdl clk i n state = Inr (state1, log1) \<Longrightarrow>
   length log1 = 2 * n \<and> ExitObserved \<notin> set log1 \<and> KthreadExit \<notin> set log1 \<and>
   length (filter is_cycle log1) = n"
proof (induction n arbitrary: i state state1 log1)
  case 0
  then show ?case by simp
next
  case (Suc n)
  from Suc.prems obtain s t s2 l2 where
    a: "ddtrace_buffer_switch (cenv i) hdl (state\<lparr>dts_alive := clk i\<rparr>) = Inr (s, t)"
    and b: "run_cycles cenv hdl clk (Suc i) n s = Inr (s2, l2)"
    and c: "state1 = s2" "log1 = [Heartbeat (clk i), Cycle t] @ l2"
    by (auto split: sum.splits)
  from Suc.IH [OF b] c show ?case by (simp add: is_cycle_def)
qed

lemma run_example:
  "run_cycles cenv_first (Some 77) int 0 2 (state_of [buf_live]) =
     Inr ((state_of [buf_live])
            \<lparr>dts_buffer := [idle_xcall 0 (swap_xcall 0 buf_live)], dts_errors := 13,
              dts_alive := 1\<rparr>,
          [Heartbeat 0, Cycle [trace_of (switch_desc (swap_xcall 0 buf_live))],
           Heartbeat 1, Cycle []])"
  by (simp add: numeral_2_eq_2 cenv_first_def switch_eval)

lemma flush_example:
  "ddtrace_buffer_switch (cenv_first 2) (Some 77)
     ((state_of [buf_live])
            \<lparr>dts_buffer := [idle_xcall 0 (swap_xcall 0 buf_live)], dts_errors := 13,
              dts_alive := 1\<rparr>) =
     Inr ((state_of [buf_live])
            \<lparr>dts_buffer := [idle_xcall 0 (idle_xcall 0 (swap_xcall 0 buf_live))],
              dts_errors := 13, dts_alive := 1\<rparr>, [])"
  by (simp add: cenv_first_def switch_eval)

text \<open>
  Claim C8: a worker whose metadata export returned, and which reads the exit flag set
  at wake \<open>n\<close>, having read it clear at every wake before, returns. What it has done
  is the \<open>n\<close> cycles of stamp and switch, each on the state the one before left,
  then the observation of the flag, then exactly one more call of
  \<open>ddtrace_buffer_switch\<close>, made on the state that the \<open>n\<close> cycles left and with
  the swap of that moment, then \<open>kthread_exit\<close>; the state it leaves is the one this
  last switch returns. If a cycle or the last switch stops at an assertion, so does the
  worker. The last switch is made whatever the buffers hold; the \<open>n\<close> cycles before
  hold no observation of the flag and exactly \<open>n\<close> switches.
\<close>

theorem final_flush_after_exit:
  assumes "ddtrace_assert_integrity k" and "ddtrace_persist_metadata menv state = Inr 0"
    and "\<forall>j<n. \<not> ex j" and "ex n"
  shows "ddtrace_thread k menv ex cenv clk state =
           Some (case run_cycles cenv (ddtrace_dlog_handle k) clk 0 n state of
                   Inl p \<Rightarrow> Inl p
                 | Inr (state1, log1) \<Rightarrow>
                     (case ddtrace_buffer_switch (cenv n) (ddtrace_dlog_handle k) state1 of
                        Inl p \<Rightarrow> Inl p
                      | Inr (state2, trcs) \<Rightarrow>
                          Inr (state2, log1 @ [ExitObserved, Cycle trcs, KthreadExit]))) \<and>
         (\<forall>state1 log1. run_cycles cenv (ddtrace_dlog_handle k) clk 0 n state = Inr (state1, log1)
            \<longrightarrow> ExitObserved \<notin> set log1 \<and> KthreadExit \<notin> set log1 \<and>
                length (filter is_cycle log1) = n)"
proof -
  from assms(3,4) have "\<forall>j<n. \<not> ex (0 + j)" "ex (0 + n)" by simp_all
  from thread_loop_exit [OF this, of cenv "ddtrace_dlog_handle k" clk state "[]"]
  have "thread_loop ex cenv (ddtrace_dlog_handle k) clk 0 state [] =
     Some (case run_cycles cenv (ddtrace_dlog_handle k) clk 0 n state of
             Inl p \<Rightarrow> Inl p
           | Inr (state1, log1) \<Rightarrow> Inr (n, state1, log1 @ [ExitObserved]))"
    by (simp split: sum.splits)
  with assms(1,2) have
    "ddtrace_thread k menv ex cenv clk state =
           Some (case run_cycles cenv (ddtrace_dlog_handle k) clk 0 n state of
                   Inl p \<Rightarrow> Inl p
                 | Inr (state1, log1) \<Rightarrow>
                     (case ddtrace_buffer_switch (cenv n) (ddtrace_dlog_handle k) state1 of
                        Inl p \<Rightarrow> Inl p
                      | Inr (state2, trcs) \<Rightarrow>
                          Inr (state2, log1 @ [ExitObserved, Cycle trcs, KthreadExit])))"
    by (simp add: ddtrace_thread_def split: sum.splits)
  moreover have
    "\<forall>state1 log1. run_cycles cenv (ddtrace_dlog_handle k) clk 0 n state = Inr (state1, log1)
            \<longrightarrow> ExitObserved \<notin> set log1 \<and> KthreadExit \<notin> set log1 \<and>
                length (filter is_cycle log1) = n"
    using run_cycles_log by blast
  ultimately show ?thesis by (rule conjI)
qed

theorem final_flush_after_exit_witness:
  "ddtrace_assert_integrity client_7 \<and> ddtrace_persist_metadata menv_ok (state_of [buf_live]) = Inr 0 \<and>
   \<not> exit_at_2 0 \<and> \<not> exit_at_2 1 \<and> exit_at_2 2 \<and>
   ddtrace_thread client_7 menv_ok exit_at_2 cenv_first int (state_of [buf_live]) =
     Some (Inr ((state_of [buf_live])
            \<lparr>dts_buffer := [idle_xcall 0 (idle_xcall 0 (swap_xcall 0 buf_live))],
              dts_errors := 13, dts_alive := 1\<rparr>,
          [Heartbeat 0, Cycle [trace_of (switch_desc (swap_xcall 0 buf_live))],
           Heartbeat 1, Cycle [], ExitObserved, Cycle [], KthreadExit]))"
proof -
  have a: "ddtrace_assert_integrity client_7"
    by (simp add: ddtrace_assert_integrity_def client_7_def)
  have b: "ddtrace_persist_metadata menv_ok (state_of [buf_live]) = Inr 0"
    by (rule metadata_eval)
  have c: "\<forall>j<2. \<not> exit_at_2 j" by (simp add: exit_at_2_def)
  have d: "exit_at_2 2" by (simp add: exit_at_2_def)
  have e: "\<not> exit_at_2 0 \<and> \<not> exit_at_2 1" by (simp add: exit_at_2_def)
  have h: "ddtrace_dlog_handle client_7 = Some 77" by (simp add: client_7_def)
  from final_flush_after_exit [OF a b c d, of cenv_first int, THEN conjunct1]
  have "ddtrace_thread client_7 menv_ok exit_at_2 cenv_first int (state_of [buf_live]) =
     Some (Inr ((state_of [buf_live])
            \<lparr>dts_buffer := [idle_xcall 0 (idle_xcall 0 (swap_xcall 0 buf_live))],
              dts_errors := 13, dts_alive := 1\<rparr>,
          [Heartbeat 0, Cycle [trace_of (switch_desc (swap_xcall 0 buf_live))],
           Heartbeat 1, Cycle [], ExitObserved, Cycle [], KthreadExit]))"
    by (simp add: h run_example flush_example)
  with a b d e show ?thesis by blast
qed

subsection \<open>A failed metadata export\<close>









section \<open>The consumer\<close>

text \<open>
  What \<open>dtc_get_buf\<close> does decide: a buffer of nonzero size comes from a message
  without error, with a payload, whose key the comparison accepts, and it holds the
  payload; the return value is -1 exactly when an allocation fails.
\<close>

lemma get_buf_nonzero:
  "dtc_get_buf alloc_buf alloc_data consumed cpu = (rc, Some buf) \<Longrightarrow> dtbd_size buf \<noteq> 0 \<Longrightarrow>
   \<exists>rkmessage. consumed = Some rkmessage \<and> rkm_err rkmessage = 0 \<and>
     rkm_payload rkmessage \<noteq> [] \<and> key_accepted rkmessage \<and>
     dtbd_data buf = Some (rkm_payload rkmessage) \<and>
     dtbd_size buf = length (rkm_payload rkmessage)"
  by (auto simp: dtc_get_buf_def zalloc_bufdesc_def split: if_splits option.splits)

lemma get_buf_failure:
  "fst (dtc_get_buf alloc_buf alloc_data consumed cpu) = - 1 \<longleftrightarrow>
   \<not> alloc_buf \<or>
   (\<not> alloc_data \<and>
    (\<exists>rkmessage. consumed = Some rkmessage \<and> rkm_err rkmessage = 0 \<and>
       rkm_payload rkmessage \<noteq> [] \<and> key_accepted rkmessage))"
  by (auto simp: dtc_get_buf_def split: if_splits option.splits)

text \<open>
  Claim C9: \<open>dtc_get_buf\<close> returns a buffer of nonzero size only for a message without
  error, of nonzero length, whose key is \<open>ddtrace\<close>; a wrong key gives size zero.

  The key is compared by \<open>strncmp\<close> over \<open>key_len\<close> characters, so every prefix of
  \<open>ddtrace\<close>, the empty key included, is accepted. A message with the key \<open>dd\<close> is
  copied out with size 3.
\<close>

theorem key_prefix_accepted:
  "dtc_get_buf True True
     (Some \<lparr>rkm_err = 0, rkm_payload = [1, 2, 3], rkm_key = Some ''dd''\<rparr>) 0 =
     (0, Some (zalloc_bufdesc\<lparr>dtbd_data := Some [1, 2, 3], dtbd_size := 3, dtbd_cpu := Some 0\<rparr>)) \<and>
   ''dd'' \<noteq> ''ddtrace''"
  by (simp add: dtc_get_buf_def key_accepted_def cstr_at_def)

subsection \<open>The publish retry\<close>

lemma produce_retry_queue_full:
  "\<forall>i<K. br (n + i) = QueueFull \<Longrightarrow> br (n + K) = Accepted \<Longrightarrow>
   produce_retry br p n calls =
     Some (Enqueued, Suc (n + K),
           calls @ concat (replicate K [Produce p, Poll 1000]) @ [Produce p])"
proof (induction K arbitrary: n calls)
  case 0
  then show ?case by (subst produce_retry.simps) simp
next
  case (Suc K)
  from Suc.prems(1) have h0: "br n = QueueFull"
    by (metis add.right_neutral zero_less_Suc)
  have h1: "\<forall>i<K. br (Suc n + i) = QueueFull"
  proof (intro allI impI)
    fix i assume "i < K"
    then have "Suc i < Suc K" by simp
    with Suc.prems(1) have "br (n + Suc i) = QueueFull" by blast
    then show "br (Suc n + i) = QueueFull" by simp
  qed
  from Suc.prems(2) have h2: "br (Suc n + K) = Accepted" by simp
  show ?case
    by (subst produce_retry.simps) (simp add: h0 Suc.IH [OF h1 h2])
qed

lemma polls_in_retries:
  "length (filter (\<lambda>c. c = Poll 1000) (concat (replicate K [Produce p, Poll 1000]))) = K"
  by (induction K) simp_all

text \<open>
  Claim C5: when the broker answers queue-full to the first \<open>K\<close> attempts and accepts
  the next, the handler returns with the frame enqueued; it has polled the broker
  \<open>K\<close> times, each time with the timeout of 1000 ms, once after each refused attempt,
  and every attempt carries the whole frame. The frame is the message buffered so far
  followed by the closing fragment.
\<close>

theorem queue_full_retry_enqueues:
  assumes "\<forall>i<K. br (n + i) = QueueFull" and "br (n + K) = Accepted"
    and "cstr_at frag = CHR ''}''"
  shows "\<exists>r. dtc_buffered_handler br n (Some b) frag = Some (Inr r) \<and>
             h_outcome r = Some Enqueued \<and> h_rc r = 0 \<and> h_output_buf r = None \<and>
             h_attempt r = Suc (n + K) \<and>
             h_calls r =
               concat (replicate K [Produce (b @ frag), Poll 1000]) @ [Produce (b @ frag)] \<and>
             length (filter (\<lambda>c. c = Poll 1000) (h_calls r)) = K"
  using assms(3) produce_retry_queue_full [OF assms(1,2), of "b @ frag" "[]"]
  by (simp add: dtc_buffered_handler_def polls_in_retries)

theorem queue_full_retry_enqueues_witness:
  "full_twice 0 = QueueFull \<and> full_twice 1 = QueueFull \<and> full_twice 2 = Accepted \<and>
   cstr_at ''}'' = CHR ''}'' \<and>
   (\<exists>r. dtc_buffered_handler full_twice 0 (Some ''{ab'') ''}'' = Some (Inr r) \<and>
        h_outcome r = Some Enqueued \<and>
        h_calls r =
          [Produce ''{ab}'', Poll 1000, Produce ''{ab}'', Poll 1000, Produce ''{ab}''])"
proof -
  have a: "\<forall>i<2. full_twice (0 + i) = QueueFull" by (simp add: full_twice_def)
  have b: "full_twice (0 + 2) = Accepted" by (simp add: full_twice_def)
  have c: "cstr_at ''}'' = CHR ''}''" by (simp add: cstr_at_def)
  have d: "full_twice 0 = QueueFull \<and> full_twice 1 = QueueFull \<and> full_twice 2 = Accepted"
    by (simp add: full_twice_def)
  from queue_full_retry_enqueues [OF a b c, of "''{ab''"] c d
  show ?thesis by (auto simp: numeral_2_eq_2)
qed

end
